theory Spec2Isabelle
  imports Main "HOL-Library.Sublist"
begin

section \<open>Python values\<close>

text \<open>
  A Python \<open>str\<close> is a sequence of Unicode code points; it is modelled as a list of
  natural numbers, one per code point. \<open>str\<close> turns an ASCII literal into that form.
  The two non-ASCII characters of the message literals of \<open>qa_workflow.py\<close> are the
  arrow U+2192 and the bullet U+2022.
\<close>

type_synonym pystr = "nat list"

definition str :: "string \<Rightarrow> pystr" where
  "str s = map of_char s"

definition arrow :: nat where
  "arrow = 8594"

definition bullet :: nat where
  "bullet = 8226"

text \<open>The exceptions that the modelled functions can raise.\<close>

datatype exn = ValueError | AttributeError | TypeError

text \<open>\<open>sep.join(xs)\<close>.\<close>

fun join :: "pystr \<Rightarrow> pystr list \<Rightarrow> pystr" where
  "join sep [] = []"
| "join sep [x] = x"
| "join sep (x # y # ys) = x @ sep @ join sep (y # ys)"

text \<open>
  \<open>str.isspace\<close> on one code point (the code points CPython classifies as whitespace),
  and \<open>s.strip()\<close>, which removes them from both ends.
\<close>

definition py_isspace :: "nat \<Rightarrow> bool" where
  "py_isspace c \<longleftrightarrow>
     (9 \<le> c \<and> c \<le> 13) \<or> (28 \<le> c \<and> c \<le> 32) \<or> c = 133 \<or> c = 160 \<or> c = 5760
     \<or> (8192 \<le> c \<and> c \<le> 8202) \<or> c = 8232 \<or> c = 8233 \<or> c = 8239 \<or> c = 8287
     \<or> c = 12288"

definition strip :: "pystr \<Rightarrow> pystr" where
  "strip s = rev (dropWhile py_isspace (rev (dropWhile py_isspace s)))"

text \<open>
  Truth values of the attribute types that the validator tests with \<open>not\<close>: an integer
  is false when it is \<open>None\<close> or 0, a Boolean when it is \<open>None\<close> or \<open>False\<close>, a string when
  it is \<open>None\<close> or empty, and a \<open>datetime\<close> only when it is \<open>None\<close>.
\<close>

definition truthy_int :: "int option \<Rightarrow> bool" where
  "truthy_int v = (case v of None \<Rightarrow> False | Some i \<Rightarrow> i \<noteq> 0)"

definition truthy_bool :: "bool option \<Rightarrow> bool" where
  "truthy_bool v = (case v of None \<Rightarrow> False | Some b \<Rightarrow> b)"

definition truthy_str :: "pystr option \<Rightarrow> bool" where
  "truthy_str v = (case v of None \<Rightarrow> False | Some s \<Rightarrow> s \<noteq> [])"

definition truthy_date :: "nat option \<Rightarrow> bool" where
  "truthy_date v = (case v of None \<Rightarrow> False | Some _ \<Rightarrow> True)"

text \<open>\<open>not s or not s.strip()\<close> for a nullable text attribute \<open>s\<close>.\<close>

definition blank :: "pystr option \<Rightarrow> bool" where
  "blank v = (case v of None \<Rightarrow> True | Some s \<Rightarrow> s = [] \<or> strip s = [])"

section \<open>The QA status enumeration (models.py)\<close>

datatype QAStatus = NOT_STARTED | ASSIGNED | IN_TESTING | BLOCKED | PASSED | FAILED

fun QAStatus_value :: "QAStatus \<Rightarrow> pystr" where
  "QAStatus_value NOT_STARTED = str ''Not Started''"
| "QAStatus_value ASSIGNED = str ''Assigned''"
| "QAStatus_value IN_TESTING = str ''In Testing''"
| "QAStatus_value BLOCKED = str ''Blocked''"
| "QAStatus_value PASSED = str ''Passed''"
| "QAStatus_value FAILED = str ''Failed''"

definition QAStatus_members :: "QAStatus list" where
  "QAStatus_members = [NOT_STARTED, ASSIGNED, IN_TESTING, BLOCKED, PASSED, FAILED]"

text \<open>\<open>QAStatus(s)\<close>: the member whose value is \<open>s\<close>, or \<open>ValueError\<close>.\<close>

definition QAStatus_of :: "pystr \<Rightarrow> exn + QAStatus" where
  "QAStatus_of s =
     (case find (\<lambda>m. QAStatus_value m = s) QAStatus_members of
        None \<Rightarrow> Inl ValueError
      | Some m \<Rightarrow> Inr m)"

section \<open>The amendment record (models.py, QA columns)\<close>

text \<open>
  The QA columns of \<open>Amendment\<close> with their nullability: \<open>qa_status\<close> is not nullable,
  every other QA column is. Timestamps are numbers.
\<close>

record amendment =
  amendment_id :: int
  qa_status :: pystr
  qa_assigned_id :: "int option"
  qa_assigned_date :: "nat option"
  qa_started_date :: "nat option"
  qa_test_plan_check :: "bool option"
  qa_test_release_notes_check :: "bool option"
  qa_completed :: "bool option"
  qa_signature :: "pystr option"
  qa_completed_date :: "nat option"
  qa_notes :: "pystr option"
  qa_test_plan_link :: "pystr option"
  qa_blocked_reason :: "pystr option"
  modified_by :: "pystr option"

section \<open>QAWorkflowValidator (qa_workflow.py)\<close>

definition VALID_TRANSITIONS :: "QAStatus \<rightharpoonup> QAStatus list" where
  "VALID_TRANSITIONS = map_of
     [(NOT_STARTED, [ASSIGNED]),
      (ASSIGNED, [IN_TESTING]),
      (IN_TESTING, [BLOCKED, PASSED, FAILED]),
      (BLOCKED, [IN_TESTING, FAILED]),
      (PASSED, [IN_TESTING]),
      (FAILED, [IN_TESTING])]"

text \<open>\<open>VALID_TRANSITIONS.get(k, [])\<close>.\<close>

definition transitions_get :: "QAStatus \<Rightarrow> QAStatus list" where
  "transitions_get k = (case VALID_TRANSITIONS k of None \<Rightarrow> [] | Some l \<Rightarrow> l)"

definition can_transition :: "pystr \<Rightarrow> pystr \<Rightarrow> bool" where
  "can_transition from_status to_status =
     (case QAStatus_of from_status of
        Inl _ \<Rightarrow> False
      | Inr from_enum \<Rightarrow>
          (case QAStatus_of to_status of
             Inl _ \<Rightarrow> False
           | Inr to_enum \<Rightarrow>
               if from_enum = to_enum then True
               else to_enum \<in> set (transitions_get from_enum)))"

definition check_completion_blockers :: "amendment \<Rightarrow> pystr list" where
  "check_completion_blockers a =
     (if \<not> truthy_bool (qa_test_plan_check a)
        then [str ''Test plan must be checked''] else [])
     @ (if \<not> truthy_bool (qa_test_release_notes_check a)
        then [str ''Release notes must be checked''] else [])
     @ (if \<not> truthy_date (qa_started_date a)
        then [str ''QA testing must be started before marking as Passed''] else [])
     @ (if blank (qa_notes a)
        then [str ''QA notes are required (document what was tested and results)'']
        else [])"

definition can_complete_qa :: "amendment \<Rightarrow> bool \<times> pystr list" where
  "can_complete_qa a =
     (let blockers = check_completion_blockers a in (length blockers = 0, blockers))"

definition passed_message :: "pystr list \<Rightarrow> pystr" where
  "passed_message blockers =
     (str ''Cannot mark as Passed. The following requirements must be met:'' @ [10])
     @ join [10] (map (\<lambda>blocker. str ''  '' @ [bullet] @ str '' '' @ blocker) blockers)"

definition validate_transition_requirements :: "amendment \<Rightarrow> pystr \<Rightarrow> exn + pystr option" where
  "validate_transition_requirements a new_status =
     (case QAStatus_of new_status of
        Inl e \<Rightarrow> Inl e
      | Inr new_status_enum \<Rightarrow> Inr
         (if new_status_enum = ASSIGNED \<and> \<not> truthy_int (qa_assigned_id a) then
            Some (str ''Cannot assign QA: No QA tester assigned. Please assign a QA tester first.'')
          else if new_status_enum = IN_TESTING \<and> \<not> truthy_int (qa_assigned_id a) then
            Some (str ''Cannot start testing: No QA tester assigned.'')
          else if new_status_enum = IN_TESTING \<and> \<not> truthy_date (qa_assigned_date a) then
            Some (str ''Cannot start testing: QA assignment date not set.'')
          else if new_status_enum = PASSED \<and> check_completion_blockers a \<noteq> [] then
            Some (passed_message (check_completion_blockers a))
          else if new_status_enum = BLOCKED \<and> blank (qa_blocked_reason a) then
            Some (str ''Cannot mark as Blocked: Please provide a reason for blocking.'')
          else None))"

definition invalid_transition_message :: "pystr \<Rightarrow> pystr \<Rightarrow> pystr" where
  "invalid_transition_message current_status new_status =
     str ''Invalid status transition: '' @ current_status @ str '' '' @ [arrow] @ str '' ''
     @ new_status @ str ''. ''
     @ str ''Follow the workflow: Not Started '' @ [arrow] @ str '' Assigned '' @ [arrow]
     @ str '' In Testing '' @ [arrow] @ str '' Passed/Failed/Blocked''"

definition validate_transition :: "amendment \<Rightarrow> pystr \<Rightarrow> exn + (bool \<times> pystr option)" where
  "validate_transition a new_status =
     (let current_status = qa_status a in
      if \<not> can_transition current_status new_status then
        Inr (False, Some (invalid_transition_message current_status new_status))
      else
        (case validate_transition_requirements a new_status of
           Inl e \<Rightarrow> Inl e
         | Inr error \<Rightarrow> if truthy_str error then Inr (False, error) else Inr (True, None)))"

text \<open>
  The call on an amendment object, with the object as it is after the call: the validator
  reads attributes of the amendment and assigns none.
\<close>

definition validate_transition_call ::
  "amendment \<Rightarrow> pystr \<Rightarrow> (exn + (bool \<times> pystr option)) \<times> amendment" where
  "validate_transition_call a new_status = (validate_transition a new_status, a)"

definition get_next_allowed_statuses :: "pystr \<Rightarrow> pystr list" where
  "get_next_allowed_statuses current_status =
     (case QAStatus_of current_status of
        Inl _ \<Rightarrow> []
      | Inr status_enum \<Rightarrow> map QAStatus_value (transitions_get status_enum))"


section \<open>The record store (models.py)\<close>

text \<open>
  Each table is the list of its rows in the order the store returns them; \<open>.first()\<close> is
  the first row of the filtered list and \<open>.all()\<close> the filtered list. A primary key declared
  \<open>autoincrement\<close> receives the largest key of the table plus one. The \<open>created_on\<close> and
  \<open>modified_on\<close> columns of the collaboration tables, which no modelled function reads, are
  left out. Column names shared by several tables carry the table's name in front.
\<close>

definition next_id :: "int list \<Rightarrow> int" where
  "next_id ids = fold max ids 0 + 1"

record employee =
  employee_id :: int
  employee_name :: pystr
  initials :: "pystr option"
  email :: "pystr option"
  windows_login :: "pystr option"
  is_active :: "bool option"
  role :: pystr
  password_hash :: "pystr option"
  last_login :: "nat option"
  employee_created_on :: nat
  employee_modified_on :: nat

record history =
  history_id :: int
  history_amendment_id :: int
  action :: pystr
  field_name :: "pystr option"
  old_value :: "pystr option"
  new_value :: "pystr option"
  history_comment :: "pystr option"
  changed_by_id :: "int option"

record notification =
  notification_id :: int
  notification_employee_id :: int
  notification_type :: pystr
  title :: pystr
  message :: "pystr option"
  notification_amendment_id :: "int option"
  defect_id :: "int option"
  is_read :: "bool option"
  is_email_sent :: "bool option"

record comment =
  comment_id :: int
  comment_amendment_id :: int
  comment_employee_id :: int
  parent_comment_id :: "int option"
  comment_text :: pystr
  comment_type :: pystr
  is_edited :: "bool option"

record mention =
  mention_id :: int
  mention_comment_id :: int
  mentioned_employee_id :: int
  mentioned_by_employee_id :: int
  is_notified :: "bool option"

record watcher =
  watcher_id :: int
  watcher_amendment_id :: int
  watcher_employee_id :: int
  watch_reason :: "pystr option"
  is_watching :: "bool option"
  notify_comments :: "bool option"
  notify_status_changes :: "bool option"
  notify_mentions :: "bool option"

record reaction =
  reaction_id :: int
  reaction_comment_id :: int
  reaction_employee_id :: int
  emoji :: pystr

record db =
  amendments :: "amendment list"
  employees :: "employee list"
  qa_history :: "history list"
  qa_notifications :: "notification list"
  qa_comments :: "comment list"
  comment_mentions :: "mention list"
  amendment_watchers :: "watcher list"
  comment_reactions :: "reaction list"

section \<open>QA update and QA history (crud.py)\<close>

text \<open>
  \<open>AmendmentQAUpdate\<close>: every field is optional. \<open>model_dump(exclude_unset=True)\<close> keeps the
  fields the request set, so a field is \<open>None\<close> when it was not set and \<open>Some v\<close> when it was
  set to \<open>v\<close>, where \<open>v\<close> itself may be \<open>None\<close> (null).
\<close>

record AmendmentQAUpdate =
  upd_qa_status :: "pystr option option"
  upd_qa_assigned_id :: "int option option"
  upd_qa_assigned_date :: "nat option option"
  upd_qa_started_date :: "nat option option"
  upd_qa_test_plan_check :: "bool option option"
  upd_qa_test_release_notes_check :: "bool option option"
  upd_qa_completed :: "bool option option"
  upd_qa_signature :: "pystr option option"
  upd_qa_completed_date :: "nat option option"
  upd_qa_notes :: "pystr option option"
  upd_qa_test_plan_link :: "pystr option option"
  upd_qa_blocked_reason :: "pystr option option"
  upd_modified_by :: "pystr option option"

definition get_amendment :: "db \<Rightarrow> int \<Rightarrow> amendment option" where
  "get_amendment d aid = find (\<lambda>a. amendment_id a = aid) (amendments d)"

text \<open>\<open>setattr\<close> of a dumped field: an unset field leaves the attribute as it is.\<close>

definition set_field :: "'a option \<Rightarrow> 'a \<Rightarrow> 'a" where
  "set_field u old = (case u of None \<Rightarrow> old | Some v \<Rightarrow> v)"

text \<open>
  The dumped \<open>modified_by\<close> entry after the two tests on the \<open>modified_by\<close> argument and on
  \<open>qa_update.modified_by\<close>.
\<close>

definition dumped_modified_by :: "AmendmentQAUpdate \<Rightarrow> pystr option \<Rightarrow> pystr option option" where
  "dumped_modified_by qa_update modified_by_arg =
     (if truthy_str modified_by_arg then Some modified_by_arg
      else if truthy_str (case upd_modified_by qa_update of None \<Rightarrow> None | Some v \<Rightarrow> v)
        then Some (case upd_modified_by qa_update of None \<Rightarrow> None | Some v \<Rightarrow> v)
      else upd_modified_by qa_update)"

definition apply_updates :: "amendment \<Rightarrow> AmendmentQAUpdate \<Rightarrow> pystr option \<Rightarrow> amendment" where
  "apply_updates a u modified_by_arg =
     a\<lparr>qa_status := (case upd_qa_status u of Some (Some v) \<Rightarrow> v | _ \<Rightarrow> qa_status a),
       qa_assigned_id := set_field (upd_qa_assigned_id u) (qa_assigned_id a),
       qa_assigned_date := set_field (upd_qa_assigned_date u) (qa_assigned_date a),
       qa_started_date := set_field (upd_qa_started_date u) (qa_started_date a),
       qa_test_plan_check := set_field (upd_qa_test_plan_check u) (qa_test_plan_check a),
       qa_test_release_notes_check :=
         set_field (upd_qa_test_release_notes_check u) (qa_test_release_notes_check a),
       qa_completed := set_field (upd_qa_completed u) (qa_completed a),
       qa_signature := set_field (upd_qa_signature u) (qa_signature a),
       qa_completed_date := set_field (upd_qa_completed_date u) (qa_completed_date a),
       qa_notes := set_field (upd_qa_notes u) (qa_notes a),
       qa_test_plan_link := set_field (upd_qa_test_plan_link u) (qa_test_plan_link a),
       qa_blocked_reason := set_field (upd_qa_blocked_reason u) (qa_blocked_reason a),
       modified_by := set_field (dumped_modified_by u modified_by_arg) (modified_by a)\<rparr>"

text \<open>
  \<open>update_amendment_qa\<close>: the result is \<open>None\<close> when the amendment does not exist. The
  \<open>qa_status\<close> column is not nullable, so a request that sets it to null fails at the commit;
  the handler rolls back and raises \<open>ValueError\<close>. Otherwise the row is written back under its
  primary key. No other table is touched.
\<close>

definition update_amendment_qa ::
  "db \<Rightarrow> int \<Rightarrow> AmendmentQAUpdate \<Rightarrow> pystr option \<Rightarrow> (exn + amendment option) \<times> db" where
  "update_amendment_qa d aid qa_update modified_by_arg =
     (case get_amendment d aid of
        None \<Rightarrow> (Inr None, d)
      | Some db_amendment \<Rightarrow>
          if upd_qa_status qa_update = Some None then (Inl ValueError, d)
          else
            (let a' = apply_updates db_amendment qa_update modified_by_arg in
             (Inr (Some a'),
              d\<lparr>amendments :=
                   map (\<lambda>r. if amendment_id r = amendment_id a' then a' else r)
                     (amendments d)\<rparr>)))"

definition create_qa_history ::
  "db \<Rightarrow> int \<Rightarrow> pystr \<Rightarrow> pystr option \<Rightarrow> pystr option \<Rightarrow> pystr option \<Rightarrow> pystr option
     \<Rightarrow> int option \<Rightarrow> history \<times> db" where
  "create_qa_history d aid act fname old new cmt by_id =
     (let db_history = \<lparr>history_id = next_id (map history_id (qa_history d)),
            history_amendment_id = aid, action = act, field_name = fname,
            old_value = old, new_value = new, history_comment = cmt,
            changed_by_id = by_id\<rparr>
      in (db_history, d\<lparr>qa_history := qa_history d @ [db_history]\<rparr>))"

definition track_qa_change ::
  "db \<Rightarrow> int \<Rightarrow> pystr \<Rightarrow> pystr \<Rightarrow> pystr \<Rightarrow> int option \<Rightarrow> history \<times> db" where
  "track_qa_change d aid fname old new by_id =
     create_qa_history d aid (str ''Field Updated'') (Some fname) (Some old) (Some new) None by_id"

section \<open>Watchers (crud.py)\<close>

definition find_watcher :: "db \<Rightarrow> int \<Rightarrow> int \<Rightarrow> watcher option" where
  "find_watcher d aid eid =
     find (\<lambda>w. watcher_amendment_id w = aid \<and> watcher_employee_id w = eid)
       (amendment_watchers d)"

text \<open>A change to a loaded row is written back under the row's primary key at the commit.\<close>

definition store_watcher :: "db \<Rightarrow> watcher \<Rightarrow> db" where
  "store_watcher d w =
     d\<lparr>amendment_watchers :=
         map (\<lambda>r. if watcher_id r = watcher_id w then w else r) (amendment_watchers d)\<rparr>"

definition add_watcher :: "db \<Rightarrow> int \<Rightarrow> int \<Rightarrow> pystr \<Rightarrow> watcher \<times> db" where
  "add_watcher d aid eid reason =
     (case find_watcher d aid eid of
        Some existing \<Rightarrow>
          if \<not> truthy_bool (is_watching existing) then
            (let existing' = existing\<lparr>is_watching := Some True\<rparr>
             in (existing', store_watcher d existing'))
          else (existing, d)
      | None \<Rightarrow>
          (let w = \<lparr>watcher_id = next_id (map watcher_id (amendment_watchers d)),
                 watcher_amendment_id = aid, watcher_employee_id = eid,
                 watch_reason = Some reason, is_watching = Some True,
                 notify_comments = Some True, notify_status_changes = Some True,
                 notify_mentions = Some True\<rparr>
           in (w, d\<lparr>amendment_watchers := amendment_watchers d @ [w]\<rparr>)))"

definition remove_watcher :: "db \<Rightarrow> int \<Rightarrow> int \<Rightarrow> db" where
  "remove_watcher d aid eid =
     (case find_watcher d aid eid of
        Some w \<Rightarrow> store_watcher d (w\<lparr>is_watching := Some False\<rparr>)
      | None \<Rightarrow> d)"

definition get_watchers :: "db \<Rightarrow> int \<Rightarrow> watcher list" where
  "get_watchers d aid =
     filter (\<lambda>w. watcher_amendment_id w = aid \<and> is_watching w = Some True)
       (amendment_watchers d)"


section \<open>Notifications (crud.py)\<close>

record QANotificationCreate =
  nc_notification_type :: pystr
  nc_title :: pystr
  nc_message :: "pystr option"
  nc_amendment_id :: "int option"
  nc_defect_id :: "int option"
  nc_employee_id :: int
  nc_is_email_sent :: bool

text \<open>\<open>def create_notification(db, notification)\<close>.\<close>

definition create_notification_params :: "string list" where
  "create_notification_params = [''db'', ''notification'']"

definition create_notification :: "db \<Rightarrow> QANotificationCreate \<Rightarrow> notification \<times> db" where
  "create_notification d n =
     (let db_notification =
            \<lparr>notification_id = next_id (map notification_id (qa_notifications d)),
             notification_employee_id = nc_employee_id n,
             notification_type = nc_notification_type n,
             title = nc_title n, message = nc_message n,
             notification_amendment_id = nc_amendment_id n, defect_id = nc_defect_id n,
             is_read = Some False, is_email_sent = Some (nc_is_email_sent n)\<rparr>
      in (db_notification, d\<lparr>qa_notifications := qa_notifications d @ [db_notification]\<rparr>))"

text \<open>
  Python binds the arguments of a call before the body of the callee runs. For a function
  whose parameters have no defaults and that takes neither \<open>*args\<close> nor \<open>**kwargs\<close>, a call
  with \<open>npos\<close> positional arguments and the keywords \<open>kws\<close> raises \<open>TypeError\<close> unless the
  keywords are exactly the parameters that the positional arguments leave unbound.
\<close>

definition bind_error :: "string list \<Rightarrow> nat \<Rightarrow> string list \<Rightarrow> exn option" where
  "bind_error params npos kws =
     (if npos \<le> length params \<and> distinct kws \<and> set kws = set (drop npos params)
      then None else Some TypeError)"

text \<open>
  The loop of \<open>notify_watchers\<close>. For a watcher that passes the three tests the source calls
  \<open>create_notification(db, employee_id=..., notification_type=..., title=..., message=...,
  amendment_id=...)\<close>: one positional argument and five keywords. An exception leaves the
  loop; the store keeps what was committed before.
\<close>

fun notify_loop ::
  "watcher list \<Rightarrow> db \<Rightarrow> int \<Rightarrow> pystr \<Rightarrow> pystr \<Rightarrow> int option \<Rightarrow> (exn + unit) \<times> db" where
  "notify_loop [] d aid event_type msg exclude_employee_id = (Inr (), d)"
| "notify_loop (w # ws) d aid event_type msg exclude_employee_id =
     (if truthy_int exclude_employee_id \<and> Some (watcher_employee_id w) = exclude_employee_id
        then notify_loop ws d aid event_type msg exclude_employee_id
      else if event_type = str ''comment'' \<and> \<not> truthy_bool (notify_comments w)
        then notify_loop ws d aid event_type msg exclude_employee_id
      else if event_type = str ''status_change'' \<and> \<not> truthy_bool (notify_status_changes w)
        then notify_loop ws d aid event_type msg exclude_employee_id
      else if event_type = str ''mention'' \<and> \<not> truthy_bool (notify_mentions w)
        then notify_loop ws d aid event_type msg exclude_employee_id
      else
        (case bind_error create_notification_params 1
                [''employee_id'', ''notification_type'', ''title'', ''message'',
                 ''amendment_id''] of
           Some e \<Rightarrow> (Inl e, d)
         | None \<Rightarrow>
             notify_loop ws
               (snd (create_notification d
                  \<lparr>nc_notification_type = str ''Amendment Update'',
                   nc_title = str ''Amendment Update - '' @ event_type,
                   nc_message = Some msg, nc_amendment_id = Some aid,
                   nc_defect_id = None, nc_employee_id = watcher_employee_id w,
                   nc_is_email_sent = False\<rparr>))
               aid event_type msg exclude_employee_id))"

definition notify_watchers ::
  "db \<Rightarrow> int \<Rightarrow> pystr \<Rightarrow> pystr \<Rightarrow> int option \<Rightarrow> (exn + unit) \<times> db" where
  "notify_watchers d aid event_type msg exclude_employee_id =
     notify_loop (get_watchers d aid) d aid event_type msg exclude_employee_id"

section \<open>Reactions (crud.py)\<close>

definition toggle_reaction :: "db \<Rightarrow> int \<Rightarrow> int \<Rightarrow> pystr \<Rightarrow> reaction option \<times> db" where
  "toggle_reaction d cid eid em =
     (case find (\<lambda>r. reaction_comment_id r = cid \<and> reaction_employee_id r = eid \<and> emoji r = em)
             (comment_reactions d) of
        Some existing \<Rightarrow>
          (None,
           d\<lparr>comment_reactions :=
               filter (\<lambda>r. reaction_id r \<noteq> reaction_id existing) (comment_reactions d)\<rparr>)
      | None \<Rightarrow>
          (let r = \<lparr>reaction_id = next_id (map reaction_id (comment_reactions d)),
                 reaction_comment_id = cid, reaction_employee_id = eid, emoji = em\<rparr>
           in (Some r, d\<lparr>comment_reactions := comment_reactions d @ [r]\<rparr>)))"

definition get_reactions_for_comment :: "db \<Rightarrow> int \<Rightarrow> reaction list" where
  "get_reactions_for_comment d cid =
     filter (\<lambda>r. reaction_comment_id r = cid) (comment_reactions d)"

fun summary_loop :: "reaction list \<Rightarrow> (pystr \<rightharpoonup> nat) \<Rightarrow> (pystr \<rightharpoonup> nat)" where
  "summary_loop [] summary = summary"
| "summary_loop (r # rs) summary =
     summary_loop rs
       (summary(emoji r \<mapsto> (case summary (emoji r) of None \<Rightarrow> 0 | Some n \<Rightarrow> n) + 1))"

definition get_reaction_summary :: "db \<Rightarrow> int \<Rightarrow> (pystr \<rightharpoonup> nat)" where
  "get_reaction_summary d cid = summary_loop (get_reactions_for_comment d cid) Map.empty"


section \<open>Mentions (crud.py)\<close>

text \<open>
  \<open>re.findall(r'@(\w+|"[^"]+")', comment_text)\<close>. \<open>\w\<close> matches the ASCII letters, digits
  and underscore, and the non-ASCII code points that the Unicode database classifies as
  alphanumeric; that classification is the parameter \<open>ualnum\<close>. At an \<open>@\<close> the first
  alternative takes the longest run of word characters when there is one; otherwise the
  second takes a double quote, a non-empty run of characters other than the quote, and the
  closing quote. The search resumes after a match, and one character further otherwise.
  The result is the list of the captured groups.
\<close>

definition is_word :: "(nat \<Rightarrow> bool) \<Rightarrow> nat \<Rightarrow> bool" where
  "is_word ualnum c \<longleftrightarrow>
     (48 \<le> c \<and> c \<le> 57) \<or> (65 \<le> c \<and> c \<le> 90) \<or> (97 \<le> c \<and> c \<le> 122) \<or> c = 95
     \<or> (128 \<le> c \<and> ualnum c)"

function findall_mentions :: "(nat \<Rightarrow> bool) \<Rightarrow> pystr \<Rightarrow> pystr list" where
  "findall_mentions ualnum [] = []"
| "findall_mentions ualnum (c # cs) =
     (if c = 64 then
        (if takeWhile (is_word ualnum) cs \<noteq> [] then
           takeWhile (is_word ualnum) cs
             # findall_mentions ualnum (dropWhile (is_word ualnum) cs)
         else
           (case cs of
              [] \<Rightarrow> []
            | q # rest \<Rightarrow>
                if q = 34 \<and> takeWhile (\<lambda>x. x \<noteq> 34) rest \<noteq> []
                   \<and> dropWhile (\<lambda>x. x \<noteq> 34) rest \<noteq> []
                then ([34] @ takeWhile (\<lambda>x. x \<noteq> 34) rest @ [34])
                       # findall_mentions ualnum (tl (dropWhile (\<lambda>x. x \<noteq> 34) rest))
                else findall_mentions ualnum cs))
      else findall_mentions ualnum cs)"
  by pat_completeness auto
termination
proof (relation "measure (\<lambda>(u, s). length s)")
  show "wf (measure (\<lambda>(u, s). length s))" by simp
next
  fix ualnum :: "nat \<Rightarrow> bool" and c :: nat and cs :: pystr
  show "((ualnum, dropWhile (is_word ualnum) cs), (ualnum, c # cs))
          \<in> measure (\<lambda>(u, s). length s)"
    using length_dropWhile_le[of "is_word ualnum" cs] by simp
next
  fix ualnum :: "nat \<Rightarrow> bool" and c :: nat and cs :: pystr and q :: nat and rest :: pystr
  assume "cs = q # rest"
  then show "((ualnum, tl (dropWhile (\<lambda>x. x \<noteq> 34) rest)), (ualnum, c # cs))
          \<in> measure (\<lambda>(u, s). length s)"
    using length_dropWhile_le[of "\<lambda>x. x \<noteq> 34" rest] by simp
next
  fix ualnum :: "nat \<Rightarrow> bool" and c :: nat and cs :: pystr and q :: nat and rest :: pystr
  assume "cs = q # rest"
  then show "((ualnum, cs), (ualnum, c # cs)) \<in> measure (\<lambda>(u, s). length s)" by simp
next
  fix ualnum :: "nat \<Rightarrow> bool" and c :: nat and cs :: pystr
  show "((ualnum, cs), (ualnum, c # cs)) \<in> measure (\<lambda>(u, s). length s)" by simp
qed

text \<open>\<open>mention.strip('"')\<close>.\<close>

definition strip_quotes :: "pystr \<Rightarrow> pystr" where
  "strip_quotes s = rev (dropWhile (\<lambda>x. x = 34) (rev (dropWhile (\<lambda>x. x = 34) s)))"

text \<open>
  The class attributes of \<open>Employee\<close> are its eleven columns. Reading a column attribute on
  the class gives the column, here the function that reads it in a row; reading any other
  name raises \<open>AttributeError\<close>.
\<close>

datatype sqlval = Null | IntV int | TextV pystr | BoolV bool | TimeV nat

definition opt_val :: "('a \<Rightarrow> sqlval) \<Rightarrow> 'a option \<Rightarrow> sqlval" where
  "opt_val f v = (case v of None \<Rightarrow> Null | Some x \<Rightarrow> f x)"

definition Employee_columns :: "(string \<times> (employee \<Rightarrow> sqlval)) list" where
  "Employee_columns =
     [(''employee_id'', \<lambda>e. IntV (employee_id e)),
      (''employee_name'', \<lambda>e. TextV (employee_name e)),
      (''initials'', \<lambda>e. opt_val TextV (initials e)),
      (''email'', \<lambda>e. opt_val TextV (email e)),
      (''windows_login'', \<lambda>e. opt_val TextV (windows_login e)),
      (''is_active'', \<lambda>e. opt_val BoolV (is_active e)),
      (''role'', \<lambda>e. TextV (role e)),
      (''password_hash'', \<lambda>e. opt_val TextV (password_hash e)),
      (''last_login'', \<lambda>e. opt_val TimeV (last_login e)),
      (''created_on'', \<lambda>e. TimeV (employee_created_on e)),
      (''modified_on'', \<lambda>e. TimeV (employee_modified_on e))]"

definition Employee_attr :: "string \<Rightarrow> exn + (employee \<Rightarrow> sqlval)" where
  "Employee_attr name =
     (case map_of Employee_columns name of
        None \<Rightarrow> Inl AttributeError
      | Some col \<Rightarrow> Inr col)"

text \<open>
  \<open>column.ilike(pattern)\<close>: SQL \<open>LIKE\<close> on the lower-cased operands, where \<open>%\<close> matches any
  run of characters and \<open>_\<close> any one character. Lower-casing is that of ASCII letters.
\<close>

definition sql_lower :: "pystr \<Rightarrow> pystr" where
  "sql_lower s = map (\<lambda>c. if 65 \<le> c \<and> c \<le> 90 then c + 32 else c) s"

fun like :: "pystr \<Rightarrow> pystr \<Rightarrow> bool" where
  "like [] s = (s = [])"
| "like (p # ps) s =
     (if p = 37 then list_ex (\<lambda>k. like ps (drop k s)) [0..<Suc (length s)]
      else (case s of [] \<Rightarrow> False | c # cs \<Rightarrow> (p = 95 \<or> p = c) \<and> like ps cs))"

definition ilike :: "pystr \<Rightarrow> pystr \<Rightarrow> bool" where
  "ilike s pattern = like (sql_lower pattern) (sql_lower s)"

text \<open>
  The loop of \<open>parse_mentions\<close>. The filter expression is evaluated before the query is
  sent, and its first operand reads \<open>Employee.username\<close>.
\<close>

fun parse_loop :: "pystr list \<Rightarrow> db \<Rightarrow> int list \<Rightarrow> exn + int list" where
  "parse_loop [] d employee_ids = Inr employee_ids"
| "parse_loop (m # ms) d employee_ids =
     (let mention = strip_quotes m in
      case Employee_attr ''username'' of
        Inl e \<Rightarrow> Inl e
      | Inr username \<Rightarrow>
          (case find (\<lambda>e. (username e = TextV mention
                              \<or> ilike (employee_name e) ([37] @ mention @ [37]))
                            \<and> is_active e = Some True)
                  (employees d) of
             Some employee \<Rightarrow> parse_loop ms d (employee_ids @ [employee_id employee])
           | None \<Rightarrow> parse_loop ms d employee_ids))"

definition parse_mentions :: "(nat \<Rightarrow> bool) \<Rightarrow> pystr \<Rightarrow> db \<Rightarrow> exn + int list" where
  "parse_mentions ualnum txt d = parse_loop (findall_mentions ualnum txt) d []"

fun add_mention_rows :: "db \<Rightarrow> int \<Rightarrow> int list \<Rightarrow> int \<Rightarrow> mention list \<times> db" where
  "add_mention_rows d cid [] by_id = ([], d)"
| "add_mention_rows d cid (eid # eids) by_id =
     (let m = \<lparr>mention_id = next_id (map mention_id (comment_mentions d)),
              mention_comment_id = cid, mentioned_employee_id = eid,
              mentioned_by_employee_id = by_id, is_notified = Some False\<rparr>;
          (ms, d') = add_mention_rows (d\<lparr>comment_mentions := comment_mentions d @ [m]\<rparr>)
                       cid eids by_id
      in (m # ms, d'))"

fun add_mentioned_watchers :: "db \<Rightarrow> int \<Rightarrow> int list \<Rightarrow> db" where
  "add_mentioned_watchers d aid [] = d"
| "add_mentioned_watchers d aid (eid # eids) =
     add_mentioned_watchers (snd (add_watcher d aid eid (str ''Mentioned''))) aid eids"

definition create_comment_mentions ::
  "db \<Rightarrow> int \<Rightarrow> int list \<Rightarrow> int \<Rightarrow> mention list \<times> db" where
  "create_comment_mentions d cid mentioned_employee_ids mentioned_by =
     (let (mentions, d1) = add_mention_rows d cid mentioned_employee_ids mentioned_by in
      case find (\<lambda>c. comment_id c = cid) (qa_comments d1) of
        Some c \<Rightarrow>
          (mentions, add_mentioned_watchers d1 (comment_amendment_id c) mentioned_employee_ids)
      | None \<Rightarrow> (mentions, d1))"

section \<open>Comment creation (crud.py)\<close>

text \<open>
  \<open>create_qa_comment_enhanced\<close>. Every step commits, so an exception raised by a later step
  leaves the rows of the earlier steps in the store.
\<close>

definition create_qa_comment_enhanced ::
  "(nat \<Rightarrow> bool) \<Rightarrow> db \<Rightarrow> int \<Rightarrow> int \<Rightarrow> pystr \<Rightarrow> pystr \<Rightarrow> int option
     \<Rightarrow> (exn + comment) \<times> db" where
  "create_qa_comment_enhanced ualnum d aid eid txt ctype parent =
     (let c = \<lparr>comment_id = next_id (map comment_id (qa_comments d)),
              comment_amendment_id = aid, comment_employee_id = eid,
              parent_comment_id = parent, comment_text = txt, comment_type = ctype,
              is_edited = Some False\<rparr>;
          d1 = d\<lparr>qa_comments := qa_comments d @ [c]\<rparr>
      in case parse_mentions ualnum txt d1 of
           Inl e \<Rightarrow> (Inl e, d1)
         | Inr mentioned_ids \<Rightarrow>
             (let d2 = (if mentioned_ids \<noteq> []
                        then snd (create_comment_mentions d1 (comment_id c) mentioned_ids eid)
                        else d1);
                  d3 = snd (add_watcher d2 aid eid (str ''Participated''))
              in case find (\<lambda>e. employee_id e = eid) (employees d3) of
                   None \<Rightarrow> (Inr c, d3)
                 | Some employee \<Rightarrow>
                     (case notify_watchers d3 aid (str ''comment'')
                             (employee_name employee @ str '' commented: '' @ take 100 txt)
                             (Some eid) of
                        (Inl e, d4) \<Rightarrow> (Inl e, d4)
                      | (Inr _, d4) \<Rightarrow> (Inr c, d4))))"


section \<open>Values used in the statements\<close>

text \<open>The six values of the status enumeration, as strings.\<close>

definition QAStatus_values :: "pystr set" where
  "QAStatus_values = {str ''Not Started'', str ''Assigned'', str ''In Testing'',
                      str ''Blocked'', str ''Passed'', str ''Failed''}"

text \<open>An amendment as it is created, in a given status: no tester, nothing checked.\<close>

definition example_amendment :: "pystr \<Rightarrow> amendment" where
  "example_amendment st = \<lparr>amendment_id = 1, qa_status = st, qa_assigned_id = None,
       qa_assigned_date = None, qa_started_date = None, qa_test_plan_check = Some False,
       qa_test_release_notes_check = Some False, qa_completed = Some False,
       qa_signature = None, qa_completed_date = None, qa_notes = None,
       qa_test_plan_link = None, qa_blocked_reason = None, modified_by = None\<rparr>"

text \<open>Stores used as concrete inputs.\<close>

definition empty_db :: db where
  "empty_db = \<lparr>amendments = [], employees = [], qa_history = [], qa_notifications = [],
      qa_comments = [], comment_mentions = [], amendment_watchers = [],
      comment_reactions = []\<rparr>"

text \<open>Comment 5 carries a thumbs-up of employee 2 and a party popper of employee 3.\<close>

definition reactions_db :: db where
  "reactions_db = empty_db\<lparr>comment_reactions :=
      [\<lparr>reaction_id = 1, reaction_comment_id = 5, reaction_employee_id = 2, emoji = [128077]\<rparr>,
       \<lparr>reaction_id = 2, reaction_comment_id = 5, reaction_employee_id = 3, emoji = [127881]\<rparr>]\<rparr>"

text \<open>Employee 2 watches amendment 10 and is muted.\<close>

definition muted_db :: db where
  "muted_db = empty_db\<lparr>amendment_watchers :=
      [\<lparr>watcher_id = 1, watcher_amendment_id = 10, watcher_employee_id = 2,
        watch_reason = Some (str ''Manual''), is_watching = Some False,
        notify_comments = Some True, notify_status_changes = Some False,
        notify_mentions = Some True\<rparr>]\<rparr>"

text \<open>Amendment 1 is in status Not Started and has tester 7 assigned.\<close>

definition qa_db :: db where
  "qa_db = empty_db\<lparr>amendments :=
      [(example_amendment (str ''Not Started''))\<lparr>qa_assigned_id := Some 7\<rparr>]\<rparr>"

text \<open>The request \<open>{"qa_status": "Assigned"}\<close>.\<close>

definition to_assigned :: AmendmentQAUpdate where
  "to_assigned = \<lparr>upd_qa_status = Some (Some (str ''Assigned'')), upd_qa_assigned_id = None,
      upd_qa_assigned_date = None, upd_qa_started_date = None,
      upd_qa_test_plan_check = None, upd_qa_test_release_notes_check = None,
      upd_qa_completed = None, upd_qa_signature = None, upd_qa_completed_date = None,
      upd_qa_notes = None, upd_qa_test_plan_link = None, upd_qa_blocked_reason = None,
      upd_modified_by = None\<rparr>"

text \<open>
  Amendment 10 has three active watchers, the employees 1, 2 and 3; employee 3 has
  \<open>notify_status_changes\<close> false.
\<close>

definition watchers_db :: db where
  "watchers_db = empty_db\<lparr>amendment_watchers :=
      [\<lparr>watcher_id = 1, watcher_amendment_id = 10, watcher_employee_id = 1,
        watch_reason = Some (str ''Manual''), is_watching = Some True,
        notify_comments = Some True, notify_status_changes = Some True,
        notify_mentions = Some True\<rparr>,
       \<lparr>watcher_id = 2, watcher_amendment_id = 10, watcher_employee_id = 2,
        watch_reason = Some (str ''Manual''), is_watching = Some True,
        notify_comments = Some True, notify_status_changes = Some True,
        notify_mentions = Some True\<rparr>,
       \<lparr>watcher_id = 3, watcher_amendment_id = 10, watcher_employee_id = 3,
        watch_reason = Some (str ''Manual''), is_watching = Some True,
        notify_comments = Some True, notify_status_changes = Some False,
        notify_mentions = Some True\<rparr>]\<rparr>"

text \<open>Two active employees: Alice Jones with the login \<open>alice\<close>, and Bob Smith.\<close>

definition staff_db :: db where
  "staff_db = empty_db\<lparr>employees :=
      [\<lparr>employee_id = 1, employee_name = str ''Alice Jones'', initials = None, email = None,
        windows_login = Some (str ''alice''), is_active = Some True, role = str ''User'',
        password_hash = None, last_login = None, employee_created_on = 0,
        employee_modified_on = 0\<rparr>,
       \<lparr>employee_id = 2, employee_name = str ''Bob Smith'', initials = None, email = None,
        windows_login = Some (str ''bsmith''), is_active = Some True, role = str ''User'',
        password_hash = None, last_login = None, employee_created_on = 0,
        employee_modified_on = 0\<rparr>]\<rparr>"

section \<open>The status machine\<close>

lemma QAStatus_of_value: "QAStatus_of (QAStatus_value s) = Inr s"
  by (cases s) (simp_all add: QAStatus_of_def QAStatus_members_def str_def)

lemma QAStatus_of_unknown:
  "s \<notin> QAStatus_value ` set QAStatus_members \<Longrightarrow> QAStatus_of s = Inl ValueError"
  unfolding QAStatus_of_def
  by (auto split: option.splits simp: find_Some_iff)

lemma can_transition_values:
  "can_transition (QAStatus_value f) (QAStatus_value t)
     = (f = t \<or> t \<in> set (transitions_get f))"
  by (simp add: can_transition_def QAStatus_of_value)

lemma transitions_get_simps:
  "transitions_get NOT_STARTED = [ASSIGNED]"
  "transitions_get ASSIGNED = [IN_TESTING]"
  "transitions_get IN_TESTING = [BLOCKED, PASSED, FAILED]"
  "transitions_get BLOCKED = [IN_TESTING, FAILED]"
  "transitions_get PASSED = [IN_TESTING]"
  "transitions_get FAILED = [IN_TESTING]"
  by (simp_all add: transitions_get_def VALID_TRANSITIONS_def)

lemma invalid_transition_message_nonempty: "invalid_transition_message c n \<noteq> []"
  by (simp add: invalid_transition_message_def str_def)

text \<open>
  Claim C1. For two different statuses \<open>f\<close> and \<open>t\<close> that are not an edge of the transition
  table, \<open>validate_transition\<close> on an amendment in status \<open>f\<close> with the requested status \<open>t\<close>
  returns not-ok with a reason, the reason is not empty (it is the invalid-transition
  message, which names the workflow path), and the amendment after the call is the
  amendment before it.
\<close>

theorem validate_transition_rejects_non_edges:
  assumes "f \<noteq> t"
    and "(f, t) \<notin> {(NOT_STARTED, ASSIGNED), (ASSIGNED, IN_TESTING),
                     (IN_TESTING, BLOCKED), (IN_TESTING, PASSED), (IN_TESTING, FAILED),
                     (BLOCKED, IN_TESTING), (BLOCKED, FAILED),
                     (PASSED, IN_TESTING), (FAILED, IN_TESTING)}"
    and "qa_status a = QAStatus_value f"
  shows "\<exists>reason. validate_transition_call a (QAStatus_value t) = (Inr (False, Some reason), a)
           \<and> reason \<noteq> []
           \<and> reason = invalid_transition_message (QAStatus_value f) (QAStatus_value t)"
proof -
  have "\<not> (f = t \<or> t \<in> set (transitions_get f))"
    using assms(1,2) by (cases f; cases t) (simp_all add: transitions_get_simps)
  then have "\<not> can_transition (QAStatus_value f) (QAStatus_value t)"
    unfolding can_transition_values .
  then show ?thesis
    using assms(3)
    by (simp add: validate_transition_call_def validate_transition_def
        invalid_transition_message_nonempty)
qed

theorem validate_transition_rejects_non_edges_witness:
  "\<exists>reason. validate_transition_call (example_amendment (str ''Not Started'')) (str ''Passed'')
       = (Inr (False, Some reason), example_amendment (str ''Not Started'')) \<and> reason \<noteq> []
       \<and> reason = invalid_transition_message (str ''Not Started'') (str ''Passed'')"
  using validate_transition_rejects_non_edges [of NOT_STARTED PASSED "example_amendment (str ''Not Started'')"]
  by (simp add: example_amendment_def)

lemma strip_empty_iff: "strip s = [] \<longleftrightarrow> (\<forall>c\<in>set s. py_isspace c)"
proof -
  have "strip s = [] \<longleftrightarrow> (\<forall>c\<in>set (dropWhile py_isspace s). py_isspace c)"
    by (simp add: strip_def dropWhile_eq_Nil_conv)
  also have "\<dots> \<longleftrightarrow> dropWhile py_isspace s = []"
  proof
    assume h: "\<forall>c\<in>set (dropWhile py_isspace s). py_isspace c"
    show "dropWhile py_isspace s = []"
    proof (rule ccontr)
      assume ne: "dropWhile py_isspace s \<noteq> []"
      then have "\<not> py_isspace (hd (dropWhile py_isspace s))" by (rule hd_dropWhile)
      moreover have "hd (dropWhile py_isspace s) \<in> set (dropWhile py_isspace s)"
        using ne by simp
      ultimately show False using h by blast
    qed
  qed (auto dest: set_dropWhileD)
  also have "\<dots> \<longleftrightarrow> (\<forall>c\<in>set s. py_isspace c)"
    by (simp add: dropWhile_eq_Nil_conv)
  finally show ?thesis .
qed

lemma blank_iff:
  "blank v \<longleftrightarrow> (\<forall>s. v = Some s \<longrightarrow> (\<forall>c\<in>set s. py_isspace c))"
  by (cases v) (auto simp: blank_def strip_empty_iff)

lemma truthy_bool_iff: "truthy_bool v \<longleftrightarrow> v = Some True"
  by (cases v) (simp_all add: truthy_bool_def)

lemma truthy_date_iff: "truthy_date v \<longleftrightarrow> v \<noteq> None"
  by (cases v) (simp_all add: truthy_date_def)

lemma truthy_int_iff: "truthy_int v \<longleftrightarrow> (\<exists>i. v = Some i \<and> i \<noteq> 0)"
  by (cases v) (simp_all add: truthy_int_def)

lemma sublist_join:
  "b \<in> set bs \<Longrightarrow> sublist b (join sep (map ((@) pre) bs))"
proof (induction bs)
  case Nil
  then show ?case by simp
next
  case (Cons x xs)
  show ?case
  proof (cases xs)
    case Nil
    then have "b = x" using Cons.prems by simp
    then show ?thesis using Nil sublist_appendI[of b pre "[]"] by simp
  next
    case (Cons y ys)
    have j: "join sep (map ((@) pre) (x # xs))
               = pre @ x @ (sep @ join sep (map ((@) pre) xs))"
      using Cons by simp
    show ?thesis
    proof (cases "b = x")
      case True
      then show ?thesis unfolding j using sublist_appendI[of b pre] by simp
    next
      case False
      then have "sublist b (join sep (map ((@) pre) xs))"
        using Cons.prems Cons.IH by simp
      then have "sublist b ((pre @ x @ sep) @ join sep (map ((@) pre) xs))"
        unfolding sublist_append[of b "pre @ x @ sep"] by (rule disjI2[OF disjI1])
      then show ?thesis unfolding j by simp
    qed
  qed
qed

lemma sublist_passed_message:
  assumes "b \<in> set bs"
  shows "sublist b (passed_message bs)"
proof -
  have m: "(\<lambda>blocker. str ''  '' @ [bullet] @ str '' '' @ blocker)
             = (@) (str ''  '' @ [bullet] @ str '' '')"
    by (rule ext) simp
  have "sublist b (join [10] (map ((@) (str ''  '' @ [bullet] @ str '' '')) bs))"
    using assms by (rule sublist_join)
  then show ?thesis
    unfolding passed_message_def m sublist_append[of b "_ @ [10]"] by (rule disjI2[OF disjI1])
qed



lemma check_completion_blockers_Nil:
  "check_completion_blockers a = [] \<longleftrightarrow>
     qa_test_plan_check a = Some True \<and> qa_test_release_notes_check a = Some True
     \<and> qa_started_date a \<noteq> None
     \<and> (\<exists>s. qa_notes a = Some s \<and> (\<exists>c\<in>set s. \<not> py_isspace c))"
  by (auto simp: check_completion_blockers_def truthy_bool_iff truthy_date_iff blank_iff)

lemma validate_to_passed:
  assumes "qa_status a = str ''In Testing''"
  shows "validate_transition a (str ''Passed'') =
           (if check_completion_blockers a = [] then Inr (True, None)
            else Inr (False, Some (passed_message (check_completion_blockers a))))"
proof -
  have c: "can_transition (str ''In Testing'') (str ''Passed'')"
    using can_transition_values[of IN_TESTING PASSED] by (simp add: transitions_get_simps)
  have q: "QAStatus_of (str ''Passed'') = Inr PASSED"
    using QAStatus_of_value[of PASSED] by simp
  have ne: "passed_message bs \<noteq> []" for bs
    by (simp add: passed_message_def str_def)
  show ?thesis
    by (simp add: validate_transition_def assms c validate_transition_requirements_def q
        truthy_str_def ne)
qed

text \<open>
  Claim C3. For an amendment in status In Testing, \<open>validate_transition\<close> to Passed returns
  ok exactly when the test-plan flag is true, the release-notes flag is true, the
  testing-start timestamp is not null and the QA notes contain a character that is not
  whitespace. When it does not return ok it returns not-ok with a reason that contains the
  message of every missing prerequisite. With both flags false, the list of blockers has
  at least two entries and the transition is refused.
\<close>

theorem passed_requires_all_prerequisites:
  assumes "qa_status a = str ''In Testing''"
  shows "(validate_transition a (str ''Passed'') = Inr (True, None)
            \<longleftrightarrow> qa_test_plan_check a = Some True
                \<and> qa_test_release_notes_check a = Some True
                \<and> qa_started_date a \<noteq> None
                \<and> (\<exists>s. qa_notes a = Some s \<and> (\<exists>c\<in>set s. \<not> py_isspace c)))
       \<and> (validate_transition a (str ''Passed'') \<noteq> Inr (True, None) \<longrightarrow>
            (\<exists>reason. validate_transition a (str ''Passed'') = Inr (False, Some reason)
               \<and> (qa_test_plan_check a \<noteq> Some True
                     \<longrightarrow> sublist (str ''Test plan must be checked'') reason)
               \<and> (qa_test_release_notes_check a \<noteq> Some True
                     \<longrightarrow> sublist (str ''Release notes must be checked'') reason)
               \<and> (qa_started_date a = None
                     \<longrightarrow> sublist (str ''QA testing must be started before marking as Passed'')
                           reason)
               \<and> (\<not> (\<exists>s. qa_notes a = Some s \<and> (\<exists>c\<in>set s. \<not> py_isspace c))
                     \<longrightarrow> sublist
                           (str ''QA notes are required (document what was tested and results)'')
                           reason)))
       \<and> (qa_test_plan_check a \<noteq> Some True \<and> qa_test_release_notes_check a \<noteq> Some True
            \<longrightarrow> 2 \<le> length (snd (can_complete_qa a))
                \<and> validate_transition a (str ''Passed'') \<noteq> Inr (True, None))"
proof (intro conjI impI)
  show "validate_transition a (str ''Passed'') = Inr (True, None)
            \<longleftrightarrow> qa_test_plan_check a = Some True
                \<and> qa_test_release_notes_check a = Some True
                \<and> qa_started_date a \<noteq> None
                \<and> (\<exists>s. qa_notes a = Some s \<and> (\<exists>c\<in>set s. \<not> py_isspace c))"
    unfolding validate_to_passed[OF assms] check_completion_blockers_Nil[symmetric]
    by simp
next
  assume "validate_transition a (str ''Passed'') \<noteq> Inr (True, None)"
  then have ne: "check_completion_blockers a \<noteq> []"
    unfolding validate_to_passed[OF assms] by (simp split: if_splits)
  let ?r = "passed_message (check_completion_blockers a)"
  have v: "validate_transition a (str ''Passed'') = Inr (False, Some ?r)"
    unfolding validate_to_passed[OF assms] using ne by simp
  have 1: "qa_test_plan_check a \<noteq> Some True
             \<longrightarrow> sublist (str ''Test plan must be checked'') ?r"
    by (intro impI sublist_passed_message)
       (simp add: check_completion_blockers_def truthy_bool_iff)
  have 2: "qa_test_release_notes_check a \<noteq> Some True
             \<longrightarrow> sublist (str ''Release notes must be checked'') ?r"
    by (intro impI sublist_passed_message)
       (simp add: check_completion_blockers_def truthy_bool_iff)
  have 3: "qa_started_date a = None
             \<longrightarrow> sublist (str ''QA testing must be started before marking as Passed'') ?r"
    by (intro impI sublist_passed_message)
       (simp add: check_completion_blockers_def truthy_date_iff)
  have 4: "\<not> (\<exists>s. qa_notes a = Some s \<and> (\<exists>c\<in>set s. \<not> py_isspace c))
             \<longrightarrow> sublist (str ''QA notes are required (document what was tested and results)'') ?r"
  proof (intro impI sublist_passed_message)
    assume "\<not> (\<exists>s. qa_notes a = Some s \<and> (\<exists>c\<in>set s. \<not> py_isspace c))"
    then have "blank (qa_notes a)" unfolding blank_iff by blast
    then show "str ''QA notes are required (document what was tested and results)''
                 \<in> set (check_completion_blockers a)"
      by (simp add: check_completion_blockers_def)
  qed
  show "\<exists>reason. validate_transition a (str ''Passed'') = Inr (False, Some reason)
               \<and> (qa_test_plan_check a \<noteq> Some True
                     \<longrightarrow> sublist (str ''Test plan must be checked'') reason)
               \<and> (qa_test_release_notes_check a \<noteq> Some True
                     \<longrightarrow> sublist (str ''Release notes must be checked'') reason)
               \<and> (qa_started_date a = None
                     \<longrightarrow> sublist (str ''QA testing must be started before marking as Passed'')
                           reason)
               \<and> (\<not> (\<exists>s. qa_notes a = Some s \<and> (\<exists>c\<in>set s. \<not> py_isspace c))
                     \<longrightarrow> sublist
                           (str ''QA notes are required (document what was tested and results)'')
                           reason)"
    by (rule exI[of _ ?r]) (intro conjI v 1 2 3 4)
next
  assume h: "qa_test_plan_check a \<noteq> Some True \<and> qa_test_release_notes_check a \<noteq> Some True"
  then show "2 \<le> length (snd (can_complete_qa a))"
    by (simp add: can_complete_qa_def check_completion_blockers_def truthy_bool_iff)
next
  assume h: "qa_test_plan_check a \<noteq> Some True \<and> qa_test_release_notes_check a \<noteq> Some True"
  then have "check_completion_blockers a \<noteq> []"
    by (simp add: check_completion_blockers_Nil)
  then show "validate_transition a (str ''Passed'') \<noteq> Inr (True, None)"
    unfolding validate_to_passed[OF assms] by simp
qed

theorem passed_requires_all_prerequisites_witness:
  "validate_transition (example_amendment (str ''In Testing'')) (str ''Passed'')
     \<noteq> Inr (True, None)
   \<and> (\<exists>reason. validate_transition (example_amendment (str ''In Testing'')) (str ''Passed'')
                  = Inr (False, Some reason)
         \<and> sublist (str ''Test plan must be checked'') reason
         \<and> sublist (str ''Release notes must be checked'') reason
         \<and> sublist (str ''QA testing must be started before marking as Passed'') reason
         \<and> sublist (str ''QA notes are required (document what was tested and results)'')
              reason)
   \<and> 2 \<le> length (snd (can_complete_qa (example_amendment (str ''In Testing''))))"
  using passed_requires_all_prerequisites [of "example_amendment (str ''In Testing'')"]
  by (simp add: example_amendment_def)

lemma validate_self:
  assumes "qa_status a = QAStatus_value s"
  shows "validate_transition a (QAStatus_value s) =
           (case validate_transition_requirements a (QAStatus_value s) of
              Inl e \<Rightarrow> Inl e
            | Inr error \<Rightarrow> if truthy_str error then Inr (False, error) else Inr (True, None))"
  using can_transition_values[of s s]
  by (simp only: validate_transition_def Let_def assms simp_thms if_False)

lemma requirements_value:
  "validate_transition_requirements a (QAStatus_value s) = Inr
         (if s = ASSIGNED \<and> \<not> truthy_int (qa_assigned_id a) then
            Some (str ''Cannot assign QA: No QA tester assigned. Please assign a QA tester first.'')
          else if s = IN_TESTING \<and> \<not> truthy_int (qa_assigned_id a) then
            Some (str ''Cannot start testing: No QA tester assigned.'')
          else if s = IN_TESTING \<and> \<not> truthy_date (qa_assigned_date a) then
            Some (str ''Cannot start testing: QA assignment date not set.'')
          else if s = PASSED \<and> check_completion_blockers a \<noteq> [] then
            Some (passed_message (check_completion_blockers a))
          else if s = BLOCKED \<and> blank (qa_blocked_reason a) then
            Some (str ''Cannot mark as Blocked: Please provide a reason for blocking.'')
          else None)"
  unfolding validate_transition_requirements_def QAStatus_of_value by simp

lemma truthy_str_simps:
  "truthy_str None = False"
  "truthy_str (Some (passed_message bs)) = True"
  "truthy_str (Some (str ''Cannot assign QA: No QA tester assigned. Please assign a QA tester first.'')) = True"
  "truthy_str (Some (str ''Cannot start testing: No QA tester assigned.'')) = True"
  "truthy_str (Some (str ''Cannot start testing: QA assignment date not set.'')) = True"
  "truthy_str (Some (str ''Cannot mark as Blocked: Please provide a reason for blocking.'')) = True"
  by (simp_all add: truthy_str_def passed_message_def str_def)

text \<open>
  Claim C2, as stated, fails: an amendment in status Assigned that has no tester is refused
  the transition to Assigned, because the gate of the requested status is checked for a
  self-transition as for any other.
\<close>

theorem self_transition_counterexample:
  "validate_transition (example_amendment (str ''Assigned'')) (str ''Assigned'')
     = Inr (False,
         Some (str ''Cannot assign QA: No QA tester assigned. Please assign a QA tester first.''))
   \<and> qa_status (example_amendment (str ''Assigned'')) = str ''Assigned''"
proof -
  have c: "can_transition (str ''Assigned'') (str ''Assigned'')"
    using can_transition_values[of ASSIGNED ASSIGNED] by simp
  have q: "QAStatus_of (str ''Assigned'') = Inr ASSIGNED"
    using QAStatus_of_value[of ASSIGNED] by simp
  show ?thesis
    by (simp add: validate_transition_def example_amendment_def c q validate_transition_requirements_def
        truthy_int_def truthy_str_simps)
qed

text \<open>
  Claim C2, amended. For each of the six statuses \<open>can_transition\<close> allows the
  self-transition, and \<open>validate_transition\<close> accepts it exactly when the gate of that status
  holds: always for Not Started and Failed; a tester for Assigned; a tester and an
  assignment date for In Testing; a blocked-reason that is not blank for Blocked; the four
  completion prerequisites for Passed.
\<close>

theorem self_transition_gated:
  assumes "qa_status a = QAStatus_value s"
  shows "can_transition (qa_status a) (QAStatus_value s)
       \<and> (validate_transition a (QAStatus_value s) = Inr (True, None) \<longleftrightarrow>
            (case s of
               NOT_STARTED \<Rightarrow> True
             | ASSIGNED \<Rightarrow> (\<exists>i. qa_assigned_id a = Some i \<and> i \<noteq> 0)
             | IN_TESTING \<Rightarrow> (\<exists>i. qa_assigned_id a = Some i \<and> i \<noteq> 0)
                               \<and> qa_assigned_date a \<noteq> None
             | BLOCKED \<Rightarrow> (\<exists>r. qa_blocked_reason a = Some r \<and> (\<exists>c\<in>set r. \<not> py_isspace c))
             | PASSED \<Rightarrow> qa_test_plan_check a = Some True
                           \<and> qa_test_release_notes_check a = Some True
                           \<and> qa_started_date a \<noteq> None
                           \<and> (\<exists>n. qa_notes a = Some n \<and> (\<exists>c\<in>set n. \<not> py_isspace c))
             | FAILED \<Rightarrow> True))"
proof
  show "can_transition (qa_status a) (QAStatus_value s)"
    unfolding assms can_transition_values by simp
next
  have b: "\<not> blank (qa_blocked_reason a) \<longleftrightarrow>
             (\<exists>r. qa_blocked_reason a = Some r \<and> (\<exists>c\<in>set r. \<not> py_isspace c))"
    unfolding blank_iff by blast
  show "validate_transition a (QAStatus_value s) = Inr (True, None) \<longleftrightarrow>
            (case s of
               NOT_STARTED \<Rightarrow> True
             | ASSIGNED \<Rightarrow> (\<exists>i. qa_assigned_id a = Some i \<and> i \<noteq> 0)
             | IN_TESTING \<Rightarrow> (\<exists>i. qa_assigned_id a = Some i \<and> i \<noteq> 0)
                               \<and> qa_assigned_date a \<noteq> None
             | BLOCKED \<Rightarrow> (\<exists>r. qa_blocked_reason a = Some r \<and> (\<exists>c\<in>set r. \<not> py_isspace c))
             | PASSED \<Rightarrow> qa_test_plan_check a = Some True
                           \<and> qa_test_release_notes_check a = Some True
                           \<and> qa_started_date a \<noteq> None
                           \<and> (\<exists>n. qa_notes a = Some n \<and> (\<exists>c\<in>set n. \<not> py_isspace c))
             | FAILED \<Rightarrow> True)"
    unfolding validate_self[OF assms] requirements_value
    by (cases s)
       (simp_all add: truthy_str_simps check_completion_blockers_Nil b[symmetric]
          truthy_int_iff truthy_date_iff del: QAStatus_value.simps)
qed

theorem self_transition_gated_witness:
  "can_transition (qa_status (example_amendment (str ''Failed''))) (str ''Failed'')
     \<and> validate_transition (example_amendment (str ''Failed'')) (str ''Failed'') = Inr (True, None)"
  using self_transition_gated [of "example_amendment (str ''Failed'')" FAILED]
  by (simp add: example_amendment_def)

lemma QAStatus_of_unrecognized:
  "s \<notin> QAStatus_values \<Longrightarrow> QAStatus_of s = Inl ValueError"
  by (rule QAStatus_of_unknown) (auto simp: QAStatus_values_def QAStatus_members_def)

text \<open>
  Claim C10. When either string is not one of the six status values, \<open>can_transition\<close> is
  false, also for two equal strings; and \<open>get_next_allowed_statuses\<close> on such a string
  returns the empty list.
\<close>

theorem unrecognized_status_rejected:
  "(from_status \<notin> QAStatus_values \<or> to_status \<notin> QAStatus_values
      \<longrightarrow> \<not> can_transition from_status to_status)
   \<and> (s \<notin> QAStatus_values \<longrightarrow> \<not> can_transition s s)
   \<and> (s \<notin> QAStatus_values \<longrightarrow> get_next_allowed_statuses s = [])"
proof (intro conjI impI)
  assume "from_status \<notin> QAStatus_values \<or> to_status \<notin> QAStatus_values"
  then have "QAStatus_of from_status = Inl ValueError \<or> QAStatus_of to_status = Inl ValueError"
    using QAStatus_of_unrecognized by blast
  then show "\<not> can_transition from_status to_status"
    by (auto simp: can_transition_def split: sum.splits)
next
  assume "s \<notin> QAStatus_values"
  then have "QAStatus_of s = Inl ValueError" by (rule QAStatus_of_unrecognized)
  then show "\<not> can_transition s s" by (simp add: can_transition_def)
next
  assume "s \<notin> QAStatus_values"
  then have "QAStatus_of s = Inl ValueError" by (rule QAStatus_of_unrecognized)
  then show "get_next_allowed_statuses s = []" by (simp add: get_next_allowed_statuses_def)
qed

theorem unrecognized_status_rejected_witness:
  "\<not> can_transition (str ''Done'') (str ''Passed'')
   \<and> \<not> can_transition (str ''Done'') (str ''Done'')
   \<and> get_next_allowed_statuses (str ''Done'') = []"
proof -
  have "str ''Done'' \<notin> QAStatus_values"
    by (simp add: QAStatus_values_def str_def)
  then show ?thesis
    using unrecognized_status_rejected [of "str ''Done''" "str ''Passed''" "str ''Done''"]
    by simp
qed

section \<open>The watch registry\<close>

lemma fold_max_ge: "x \<in> set xs \<Longrightarrow> x \<le> fold max xs (a::int)"
proof -
  assume "x \<in> set xs"
  then have "x \<le> Max (set (a # xs))" by (intro Max_ge) simp_all
  then show ?thesis by (simp only: Max.set_eq_fold)
qed

lemma next_id_fresh: "x \<in> set ids \<Longrightarrow> x \<noteq> next_id ids"
  using fold_max_ge[of x ids 0] by (auto simp: next_id_def)

lemma find_append_None: "find P xs = None \<Longrightarrow> find P (xs @ [y]) = (if P y then Some y else None)"
  by (induction xs) (auto split: if_splits)

lemma find_None_filter: "find P xs = None \<Longrightarrow> filter P xs = []"
  by (induction xs) (auto split: if_splits)

lemma summary_loop_at:
  "summary_loop rs m e =
     (if filter (\<lambda>r. emoji r = e) rs = [] then m e
      else Some ((case m e of None \<Rightarrow> 0 | Some k \<Rightarrow> k) + length (filter (\<lambda>r. emoji r = e) rs)))"
  by (induction rs arbitrary: m) (auto split: option.splits)

lemma find_store:
  assumes "find P xs = Some x" and "P y" and "watcher_id y = watcher_id x"
  shows "find P (map (\<lambda>r. if watcher_id r = watcher_id y then y else r) xs) = Some y"
  using assms(1)
proof (induction xs)
  case Nil
  then show ?case by simp
next
  case (Cons a as)
  then show ?case using assms(2,3) by (auto split: if_splits)
qed

lemma ids_store:
  "map watcher_id (map (\<lambda>r. if watcher_id r = watcher_id y then y else r) xs)
     = map watcher_id xs"
  by (induction xs) auto

lemma find_Some_mem: "find P xs = Some x \<Longrightarrow> x \<in> set xs \<and> P x"
  by (induction xs) (auto split: if_splits)

lemma filter_store:
  assumes "distinct (map watcher_id xs)" and "x \<in> set xs" and "P y = P x"
    and "watcher_id y = watcher_id x"
  shows "length (filter P (map (\<lambda>r. if watcher_id r = watcher_id y then y else r) xs))
           = length (filter P xs)"
proof -
  have inj: "inj_on watcher_id (set xs)" using assms(1) by (simp add: distinct_map)
  have "\<forall>r\<in>set xs. P (if watcher_id r = watcher_id y then y else r) = P r"
  proof
    fix r assume r: "r \<in> set xs"
    show "P (if watcher_id r = watcher_id y then y else r) = P r"
    proof (cases "watcher_id r = watcher_id y")
      case True
      then have "r = x" using inj r assms(2,4) by (auto dest: inj_onD)
      then show ?thesis using True assms(3) by simp
    next
      case False
      then show ?thesis by simp
    qed
  qed
  then have "filter P (map (\<lambda>r. if watcher_id r = watcher_id y then y else r) xs)
           = map (\<lambda>r. if watcher_id r = watcher_id y then y else r) (filter P xs)"
    by (induction xs) auto
  then show ?thesis by simp
qed

lemma filter_le1_mem:
  "length (filter P xs) \<le> 1 \<Longrightarrow> x \<in> set xs \<Longrightarrow> P x \<Longrightarrow> length (filter P xs) = 1"
proof -
  assume a: "length (filter P xs) \<le> 1" "x \<in> set xs" "P x"
  then have "x \<in> set (filter P xs)" by simp
  then have "filter P xs \<noteq> []" by (metis empty_iff list.set(1))
  then have "0 < length (filter P xs)" by simp
  with a(1) show ?thesis by linarith
qed

text \<open>
  Claim C8. In a store that satisfies the constraints of the watcher table (at most one row
  for the pair, distinct primary keys), two calls of \<open>add_watcher\<close> for the same pair return
  the same watcher, the second call changes nothing, and exactly one row for the pair
  remains. When a row for the pair exists, \<open>remove_watcher\<close> followed by \<open>add_watcher\<close>
  returns that row with its identity and with \<open>is_watching\<close> true again, and the table has
  the same primary keys as before: no row was created.
\<close>

theorem add_watcher_idempotent:
  "(length (filter (\<lambda>w. watcher_amendment_id w = aid \<and> watcher_employee_id w = eid)
               (amendment_watchers d)) \<le> 1
      \<and> distinct (map watcher_id (amendment_watchers d)) \<longrightarrow>
      (let (w1, d1) = add_watcher d aid eid reason1;
           (w2, d2) = add_watcher d1 aid eid reason2
       in watcher_id w2 = watcher_id w1 \<and> w2 = w1 \<and> d2 = d1
          \<and> watcher_amendment_id w1 = aid \<and> watcher_employee_id w1 = eid
          \<and> is_watching w1 = Some True
          \<and> length (filter (\<lambda>w. watcher_amendment_id w = aid \<and> watcher_employee_id w = eid)
                       (amendment_watchers d2)) = 1))
   \<and> (find_watcher d aid eid = Some w0 \<longrightarrow>
      (let d1 = remove_watcher d aid eid;
           (w, d2) = add_watcher d1 aid eid reason3
       in find_watcher d1 aid eid = Some (w0\<lparr>is_watching := Some False\<rparr>)
          \<and> watcher_id w = watcher_id w0 \<and> is_watching w = Some True
          \<and> w = w0\<lparr>is_watching := Some True\<rparr>
          \<and> find_watcher d2 aid eid = Some w
          \<and> map watcher_id (amendment_watchers d2) = map watcher_id (amendment_watchers d)))"
proof (intro conjI impI)
  let ?P = "\<lambda>w. watcher_amendment_id w = aid \<and> watcher_employee_id w = eid"
  let ?ws = "amendment_watchers d"
  assume h: "length (filter ?P ?ws) \<le> 1 \<and> distinct (map watcher_id ?ws)"
  show "let (w1, d1) = add_watcher d aid eid reason1;
           (w2, d2) = add_watcher d1 aid eid reason2
       in watcher_id w2 = watcher_id w1 \<and> w2 = w1 \<and> d2 = d1
          \<and> watcher_amendment_id w1 = aid \<and> watcher_employee_id w1 = eid
          \<and> is_watching w1 = Some True
          \<and> length (filter ?P (amendment_watchers d2)) = 1"
  proof (cases "find ?P ?ws")
    case None
    let ?w = "\<lparr>watcher_id = next_id (map watcher_id ?ws),
                 watcher_amendment_id = aid, watcher_employee_id = eid,
                 watch_reason = Some reason1, is_watching = Some True,
                 notify_comments = Some True, notify_status_changes = Some True,
                 notify_mentions = Some True\<rparr>"
    have a1: "add_watcher d aid eid reason1 = (?w, d\<lparr>amendment_watchers := ?ws @ [?w]\<rparr>)"
      by (simp add: add_watcher_def find_watcher_def None Let_def)
    have f: "find ?P (?ws @ [?w]) = Some ?w"
      by (simp add: find_append_None[OF None])
    have a2: "add_watcher (d\<lparr>amendment_watchers := ?ws @ [?w]\<rparr>) aid eid reason2
                = (?w, d\<lparr>amendment_watchers := ?ws @ [?w]\<rparr>)"
      unfolding add_watcher_def find_watcher_def using f by (simp add: truthy_bool_def)
    have c: "filter ?P ?ws = []" using None by (rule find_None_filter)
    show ?thesis unfolding a1 using a2 c by simp
  next
    case (Some ex)
    have mem: "ex \<in> set ?ws" "?P ex" using find_Some_mem[OF Some] by simp_all
    have one: "length (filter ?P ?ws) = 1"
      using filter_le1_mem[of ?P ?ws ex] h mem by simp
    show ?thesis
    proof (cases "truthy_bool (is_watching ex)")
      case True
      then have iw: "is_watching ex = Some True"
        by (cases "is_watching ex") (simp_all add: truthy_bool_def)
      have a1: "add_watcher d aid eid r = (ex, d)" for r
        by (simp add: add_watcher_def find_watcher_def Some True)
      show ?thesis using one mem iw by (simp add: a1)
    next
      case False
      let ?ex = "ex\<lparr>is_watching := Some True\<rparr>"
      let ?d1 = "store_watcher d ?ex"
      have a1: "add_watcher d aid eid reason1 = (?ex, ?d1)"
        by (simp add: add_watcher_def find_watcher_def Some False Let_def)
      have f: "find_watcher ?d1 aid eid = Some ?ex"
        unfolding find_watcher_def store_watcher_def
        using find_store[of ?P ?ws ex ?ex] Some mem by simp
      have a2: "add_watcher ?d1 aid eid reason2 = (?ex, ?d1)"
        by (simp add: add_watcher_def f truthy_bool_def)
      have c: "length (filter ?P (amendment_watchers ?d1)) = 1"
        unfolding store_watcher_def
        using filter_store[of ?ws ex ?P ?ex] h mem one by simp
      show ?thesis unfolding a1 using a2 c mem by simp
    qed
  qed
next
  let ?P = "\<lambda>w. watcher_amendment_id w = aid \<and> watcher_employee_id w = eid"
  let ?ws = "amendment_watchers d"
  assume h: "find_watcher d aid eid = Some w0"
  then have f0: "find ?P ?ws = Some w0" by (simp add: find_watcher_def)
  have mem: "w0 \<in> set ?ws" "?P w0" using find_Some_mem[OF f0] by simp_all
  let ?wF = "w0\<lparr>is_watching := Some False\<rparr>"
  let ?wT = "w0\<lparr>is_watching := Some True\<rparr>"
  let ?d1 = "store_watcher d ?wF"
  let ?d2 = "store_watcher ?d1 ?wT"
  have r: "remove_watcher d aid eid = ?d1"
    by (simp add: remove_watcher_def h)
  have f1: "find_watcher ?d1 aid eid = Some ?wF"
    unfolding find_watcher_def store_watcher_def
    using find_store[of ?P ?ws w0 ?wF] f0 mem by simp
  have a: "add_watcher ?d1 aid eid reason3 = (?wT, ?d2)"
    by (simp add: add_watcher_def f1 truthy_bool_def Let_def)
  have f2: "find_watcher ?d2 aid eid = Some ?wT"
  proof -
    have "find ?P (amendment_watchers ?d1) = Some ?wF"
      using f1 by (simp add: find_watcher_def)
    then show ?thesis
      unfolding find_watcher_def
      using find_store[of ?P "amendment_watchers ?d1" ?wF ?wT] mem
      by (simp add: store_watcher_def)
  qed
  have ids: "map watcher_id (amendment_watchers ?d2) = map watcher_id ?ws"
    using ids_store[of ?wT "map (\<lambda>r. if watcher_id r = watcher_id ?wF then ?wF else r) ?ws"]
      ids_store[of ?wF ?ws]
    by (simp add: store_watcher_def)
  show "let d1 = remove_watcher d aid eid;
           (w, d2) = add_watcher d1 aid eid reason3
       in find_watcher d1 aid eid = Some (w0\<lparr>is_watching := Some False\<rparr>)
          \<and> watcher_id w = watcher_id w0 \<and> is_watching w = Some True
          \<and> w = w0\<lparr>is_watching := Some True\<rparr>
          \<and> find_watcher d2 aid eid = Some w
          \<and> map watcher_id (amendment_watchers d2) = map watcher_id (amendment_watchers d)"
    unfolding r Let_def a using f1 f2 ids by simp
qed

theorem add_watcher_idempotent_witness:
  "(let (w1, d1) = add_watcher muted_db 10 2 (str ''Manual'');
        (w2, d2) = add_watcher d1 10 2 (str ''Mentioned'')
    in watcher_id w2 = watcher_id w1 \<and> watcher_id w1 = 1 \<and> is_watching w1 = Some True
       \<and> length (amendment_watchers d2) = 1)
   \<and> (let d1 = remove_watcher muted_db 10 2;
           (w, d2) = add_watcher d1 10 2 (str ''Manual'')
       in watcher_id w = 1 \<and> is_watching w = Some True
          \<and> watch_reason w = Some (str ''Manual'')
          \<and> map watcher_id (amendment_watchers d2) = [1])"
proof -
  have f: "find_watcher muted_db 10 2
             = Some \<lparr>watcher_id = 1, watcher_amendment_id = 10, watcher_employee_id = 2,
                     watch_reason = Some (str ''Manual''), is_watching = Some False,
                     notify_comments = Some True, notify_status_changes = Some False,
                     notify_mentions = Some True\<rparr>"
    by (simp add: find_watcher_def muted_db_def empty_db_def)
  have h: "length (filter (\<lambda>w. watcher_amendment_id w = 10 \<and> watcher_employee_id w = 2)
               (amendment_watchers muted_db)) \<le> 1
           \<and> distinct (map watcher_id (amendment_watchers muted_db))"
    by (simp add: muted_db_def empty_db_def)
  show ?thesis
    using add_watcher_idempotent
      [of 10 2 muted_db "str ''Manual''" "str ''Mentioned''" _ "str ''Manual''"] f h
    by (simp add: muted_db_def empty_db_def split_beta Let_def add_watcher_def
        remove_watcher_def store_watcher_def find_watcher_def truthy_bool_def)
qed

section \<open>The reaction ledger\<close>

text \<open>
  Claim C9. Starting from a ledger with no row for the triple, the first call of
  \<open>toggle_reaction\<close> returns the new row, which raises the summary's count for the emoji by
  one; the second call with the same arguments returns no row and gives back the store as
  it was before the first call: no row for the triple is left and the summary of the
  comment is the one before.
\<close>

theorem toggle_reaction_twice:
  assumes "\<not> (\<exists>r\<in>set (comment_reactions d).
                reaction_comment_id r = cid \<and> reaction_employee_id r = eid \<and> emoji r = em)"
  shows "(\<exists>r. fst (toggle_reaction d cid eid em) = Some r
              \<and> reaction_comment_id r = cid \<and> reaction_employee_id r = eid \<and> emoji r = em
              \<and> r \<in> set (comment_reactions (snd (toggle_reaction d cid eid em))))
         \<and> get_reaction_summary (snd (toggle_reaction d cid eid em)) cid em
             = Some ((case get_reaction_summary d cid em of None \<Rightarrow> 0 | Some k \<Rightarrow> k) + 1)
         \<and> fst (toggle_reaction (snd (toggle_reaction d cid eid em)) cid eid em) = None
         \<and> snd (toggle_reaction (snd (toggle_reaction d cid eid em)) cid eid em) = d
         \<and> filter (\<lambda>r. reaction_comment_id r = cid \<and> reaction_employee_id r = eid \<and> emoji r = em)
              (comment_reactions (snd (toggle_reaction (snd (toggle_reaction d cid eid em)) cid eid em)))
             = []
         \<and> get_reaction_summary
              (snd (toggle_reaction (snd (toggle_reaction d cid eid em)) cid eid em)) cid
             = get_reaction_summary d cid"
proof -
  let ?P = "\<lambda>r. reaction_comment_id r = cid \<and> reaction_employee_id r = eid \<and> emoji r = em"
  let ?rs = "comment_reactions d"
  let ?r = "\<lparr>reaction_id = next_id (map reaction_id ?rs),
             reaction_comment_id = cid, reaction_employee_id = eid, emoji = em\<rparr>"
  have none: "find ?P ?rs = None"
    using assms by (auto simp: find_None_iff)
  have t1: "toggle_reaction d cid eid em = (Some ?r, d\<lparr>comment_reactions := ?rs @ [?r]\<rparr>)"
    by (simp add: toggle_reaction_def none Let_def)
  have f1: "find ?P (?rs @ [?r]) = Some ?r"
    by (simp add: find_append_None[OF none])
  have fresh: "\<forall>x\<in>set ?rs. reaction_id x \<noteq> next_id (map reaction_id ?rs)"
    using next_id_fresh[of _ "map reaction_id ?rs"] by auto
  have del: "filter (\<lambda>x. reaction_id x \<noteq> reaction_id ?r) (?rs @ [?r]) = ?rs"
    using fresh by (simp add: filter_id_conv)
  have t2: "toggle_reaction (d\<lparr>comment_reactions := ?rs @ [?r]\<rparr>) cid eid em = (None, d)"
    unfolding toggle_reaction_def using f1 del by simp
  have s1: "get_reaction_summary (d\<lparr>comment_reactions := ?rs @ [?r]\<rparr>) cid em
              = Some ((case get_reaction_summary d cid em of None \<Rightarrow> 0 | Some k \<Rightarrow> k) + 1)"
    by (simp add: get_reaction_summary_def get_reactions_for_comment_def summary_loop_at)
  have z: "filter ?P ?rs = []" using none by (rule find_None_filter)
  show ?thesis
    unfolding t1 fst_conv snd_conv t2 using s1 z by simp
qed

theorem toggle_reaction_twice_witness:
  "fst (toggle_reaction reactions_db 5 3 [128077])
     = Some \<lparr>reaction_id = 3, reaction_comment_id = 5, reaction_employee_id = 3,
             emoji = [128077]\<rparr>
   \<and> get_reaction_summary (snd (toggle_reaction reactions_db 5 3 [128077])) 5 [128077] = Some 2
   \<and> fst (toggle_reaction (snd (toggle_reaction reactions_db 5 3 [128077])) 5 3 [128077]) = None
   \<and> snd (toggle_reaction (snd (toggle_reaction reactions_db 5 3 [128077])) 5 3 [128077])
       = reactions_db
   \<and> get_reaction_summary
        (snd (toggle_reaction (snd (toggle_reaction reactions_db 5 3 [128077])) 5 3 [128077])) 5
        [128077] = Some 1"
proof -
  have h: "\<not> (\<exists>r\<in>set (comment_reactions reactions_db).
                reaction_comment_id r = 5 \<and> reaction_employee_id r = 3 \<and> emoji r = [128077])"
    by (simp add: reactions_db_def empty_db_def)
  have s: "get_reaction_summary reactions_db 5 [128077] = Some 1"
    by (simp add: get_reaction_summary_def get_reactions_for_comment_def reactions_db_def
        empty_db_def)
  have t: "fst (toggle_reaction reactions_db 5 3 [128077])
     = Some \<lparr>reaction_id = 3, reaction_comment_id = 5, reaction_employee_id = 3,
             emoji = [128077]\<rparr>"
    by (simp add: toggle_reaction_def reactions_db_def empty_db_def next_id_def Let_def)
  show ?thesis
    using toggle_reaction_twice [OF h] s t by simp
qed

section \<open>The history recorder\<close>

text \<open>
  \<open>create_qa_history\<close> appends one entry with the old and new value it is given, but
  \<open>update_amendment_qa\<close> never changes the history table.
\<close>

lemma update_amendment_qa_keeps_history:
  "qa_history (snd (update_amendment_qa d aid u m)) = qa_history d"
  by (simp add: update_amendment_qa_def Let_def split: option.splits)

lemma create_qa_history_adds_one:
  "qa_history (snd (create_qa_history d aid act fname old new cmt by_id))
     = qa_history d @ [fst (create_qa_history d aid act fname old new cmt by_id)]
   \<and> old_value (fst (create_qa_history d aid act fname old new cmt by_id)) = old
   \<and> new_value (fst (create_qa_history d aid act fname old new cmt by_id)) = new"
  by (simp add: create_qa_history_def Let_def)

text \<open>
  Claim C4 asks for exactly one new history entry, with the old and the new status, for
  every accepted status transition applied through the QA update. The code does not write
  it: the transition Not Started to Assigned of amendment 1 is accepted by
  \<open>validate_transition\<close>, \<open>update_amendment_qa\<close> stores the new status, and the history table
  is empty before and after.
\<close>

theorem update_amendment_qa_writes_no_history:
  "validate_transition ((example_amendment (str ''Not Started''))\<lparr>qa_assigned_id := Some 7\<rparr>)
       (str ''Assigned'') = Inr (True, None)
   \<and> fst (update_amendment_qa qa_db 1 to_assigned None)
       = Inr (Some ((example_amendment (str ''Assigned''))\<lparr>qa_assigned_id := Some 7\<rparr>))
   \<and> amendments (snd (update_amendment_qa qa_db 1 to_assigned None))
       = [(example_amendment (str ''Assigned''))\<lparr>qa_assigned_id := Some 7\<rparr>]
   \<and> qa_history qa_db = []
   \<and> qa_history (snd (update_amendment_qa qa_db 1 to_assigned None)) = []"
proof -
  have c: "can_transition (str ''Not Started'') (str ''Assigned'')"
    by (simp add: can_transition_def QAStatus_of_def QAStatus_members_def str_def
        transitions_get_def VALID_TRANSITIONS_def)
  have q: "QAStatus_of (str ''Assigned'') = Inr ASSIGNED"
    by (simp add: QAStatus_of_def QAStatus_members_def str_def)
  have v: "validate_transition
             ((example_amendment (str ''Not Started''))\<lparr>qa_assigned_id := Some 7\<rparr>)
             (str ''Assigned'') = Inr (True, None)"
    by (simp add: validate_transition_def example_amendment_def c q
        validate_transition_requirements_def truthy_int_def truthy_str_def)
  have u: "update_amendment_qa qa_db 1 to_assigned None
             = (Inr (Some ((example_amendment (str ''Assigned''))\<lparr>qa_assigned_id := Some 7\<rparr>)),
                empty_db\<lparr>amendments :=
                  [(example_amendment (str ''Assigned''))\<lparr>qa_assigned_id := Some 7\<rparr>]\<rparr>)"
    by (simp add: update_amendment_qa_def get_amendment_def qa_db_def empty_db_def
        example_amendment_def to_assigned_def apply_updates_def set_field_def
        dumped_modified_by_def truthy_str_def Let_def)
  show ?thesis
    unfolding u v by (simp add: qa_db_def empty_db_def)
qed

section \<open>The notification dispatcher\<close>

text \<open>
  Whether \<open>notify_watchers\<close> returns or raises, it leaves the store as it was: no
  notification is ever created.
\<close>

lemma notify_loop_creates_nothing:
  "snd (notify_loop ws d aid event_type msg exclude_employee_id) = d"
proof (induction ws)
  case Nil
  show ?case by simp
next
  case (Cons w ws)
  have b: "bind_error create_notification_params 1
             [''employee_id'', ''notification_type'', ''title'', ''message'', ''amendment_id'']
           = Some TypeError"
    by (simp add: bind_error_def create_notification_params_def)
  show ?case
    unfolding notify_loop.simps b using Cons.IH by (auto simp del: notify_loop.simps)
qed

lemma notify_watchers_creates_nothing:
  "snd (notify_watchers d aid event_type msg exclude_employee_id) = d"
  by (simp add: notify_watchers_def notify_loop_creates_nothing)

text \<open>
  Claim C5 asks for one notification for each active watcher with \<open>notify_status_changes\<close>
  true, the acting collaborator excepted. The code does not create any: for the first
  such watcher \<open>notify_watchers\<close> calls \<open>create_notification\<close> with keywords that are not its
  parameters, which raises \<open>TypeError\<close>. With the three watchers of amendment 10, with no
  acting collaborator or with employee 1 acting, the call raises and the notification
  table stays empty.
\<close>

theorem notify_watchers_raises:
  "notify_watchers watchers_db 10 (str ''status_change'') (str ''Status changed'') None
     = (Inl TypeError, watchers_db)
   \<and> notify_watchers watchers_db 10 (str ''status_change'') (str ''Status changed'') (Some 1)
     = (Inl TypeError, watchers_db)
   \<and> length (get_watchers watchers_db 10) = 3
   \<and> qa_notifications watchers_db = []"
  by (simp add: notify_watchers_def get_watchers_def watchers_db_def empty_db_def
      truthy_int_def truthy_bool_def bind_error_def create_notification_params_def str_def)

section \<open>The mention resolver\<close>

text \<open>
  \<open>parse_mentions\<close> returns the empty list for a text without a mention token and raises
  \<open>AttributeError\<close> for every other text, since \<open>Employee\<close> has no attribute \<open>username\<close>.
\<close>

lemma parse_loop_raises: "ms \<noteq> [] \<Longrightarrow> parse_loop ms d acc = Inl AttributeError"
  by (cases ms) (simp_all add: Employee_attr_def Employee_columns_def)

lemma parse_mentions_result:
  "parse_mentions ualnum txt d
     = (if findall_mentions ualnum txt = [] then Inr [] else Inl AttributeError)"
  by (simp add: parse_mentions_def parse_loop_raises)

text \<open>
  Claim C6 asks that the text \<open>ping @alice and @"Bob Smith"\<close> resolves to both collaborators,
  each once. The code finds the two tokens and then raises \<open>AttributeError\<close> while it builds
  the filter for the first one; it returns no list.
\<close>

theorem parse_mentions_raises:
  "findall_mentions ualnum (str ''ping @alice and @'' @ [34] @ str ''Bob Smith'' @ [34])
     = [str ''alice'', [34] @ str ''Bob Smith'' @ [34]]
   \<and> parse_mentions ualnum (str ''ping @alice and @'' @ [34] @ str ''Bob Smith'' @ [34]) staff_db
     = Inl AttributeError"
proof -
  have f: "findall_mentions ualnum (str ''ping @alice and @'' @ [34] @ str ''Bob Smith'' @ [34])
     = [str ''alice'', [34] @ str ''Bob Smith'' @ [34]]"
    by (simp add: str_def is_word_def)
  show ?thesis unfolding parse_mentions_result f by simp
qed

text \<open>
  For every text with a mention token \<open>create_qa_comment_enhanced\<close> raises and creates
  neither a Mention row nor a Watcher row.
\<close>

lemma create_comment_raises_on_mention:
  assumes "findall_mentions ualnum txt \<noteq> []"
  shows "fst (create_qa_comment_enhanced ualnum d aid eid txt ctype parent) = Inl AttributeError
       \<and> comment_mentions (snd (create_qa_comment_enhanced ualnum d aid eid txt ctype parent))
           = comment_mentions d
       \<and> amendment_watchers (snd (create_qa_comment_enhanced ualnum d aid eid txt ctype parent))
           = amendment_watchers d"
  using assms by (simp add: create_qa_comment_enhanced_def parse_mentions_result Let_def)

text \<open>
  Claim C7 asks that a comment mentioning one resolvable collaborator creates one Mention
  row and one Watcher row with reason Mentioned for that collaborator, and auto-watches the
  author with reason Participated. The code commits the comment and then raises
  \<open>AttributeError\<close> in \<open>parse_mentions\<close>: employee 2 commenting \<open>see @alice\<close> on amendment 10
  leaves the comment row in the store, and no Mention row and no Watcher row.
\<close>

theorem create_comment_with_mention_raises:
  "create_qa_comment_enhanced ualnum staff_db 10 2 (str ''see @alice'') (str ''General'') None
     = (Inl AttributeError,
        staff_db\<lparr>qa_comments :=
          [\<lparr>comment_id = 1, comment_amendment_id = 10, comment_employee_id = 2,
            parent_comment_id = None, comment_text = str ''see @alice'',
            comment_type = str ''General'', is_edited = Some False\<rparr>]\<rparr>)
   \<and> comment_mentions (snd (create_qa_comment_enhanced ualnum staff_db 10 2
         (str ''see @alice'') (str ''General'') None)) = []
   \<and> amendment_watchers (snd (create_qa_comment_enhanced ualnum staff_db 10 2
         (str ''see @alice'') (str ''General'') None)) = []"
proof -
  have f: "findall_mentions ualnum (str ''see @alice'') = [str ''alice'']"
    by (simp add: str_def is_word_def)
  have p: "parse_mentions ualnum (str ''see @alice'') d = Inl AttributeError" for d
    unfolding parse_mentions_result f by simp
  have c: "create_qa_comment_enhanced ualnum staff_db 10 2 (str ''see @alice'')
             (str ''General'') None
     = (Inl AttributeError,
        staff_db\<lparr>qa_comments :=
          [\<lparr>comment_id = 1, comment_amendment_id = 10, comment_employee_id = 2,
            parent_comment_id = None, comment_text = str ''see @alice'',
            comment_type = str ''General'', is_edited = Some False\<rparr>]\<rparr>)"
    by (simp add: create_qa_comment_enhanced_def p Let_def staff_db_def empty_db_def
        next_id_def)
  show ?thesis unfolding c by (simp add: staff_db_def empty_db_def)
qed

end
